theory Spec2Isabelle
  imports Main
begin

section \<open>Linked Data Notifications client: discovery, listing, sending\<close>

text \<open>
  The repository holds one module in two copies. The unnamed copy (\<^verbatim>\<open>part_000\<close>) exports
  \<^verbatim>\<open>discoverInboxUri\<close>, \<^verbatim>\<open>list\<close> and \<^verbatim>\<open>send\<close>; \<^verbatim>\<open>src/index.js\<close> exports
  \<^verbatim>\<open>discoverInboxUri\<close> and \<^verbatim>\<open>send\<close> only. Both are embedded below: the functions of
  \<^verbatim>\<open>part_000\<close> under the names of the source, those of \<^verbatim>\<open>src/index.js\<close> with the prefix
  \<open>index_\<close>.

  Where a variable of the source has the name of a record field of this theory, the model
  renames it: \<^verbatim>\<open>webClient\<close> is \<open>client\<close>, the callbacks' \<^verbatim>\<open>inboxUri\<close> is \<open>inbox\<close>,
  \<^verbatim>\<open>contentType\<close> is \<open>ctype\<close>, \<^verbatim>\<open>rdf\<close> is \<open>ns\<close>, and the options argument is \<open>opts\<close>.

  Everything the module does goes through the injected web client. The client is a record of
  its methods; each method is a function of the state of the outside world (servers, network),
  which is a type parameter \<open>'s\<close>, and returns the new state with its answer. Beside that state
  the model keeps the list of calls made so far, so that "no GET is issued" or "the body is
  never parsed" are statements about that list.
\<close>

subsection \<open>Data\<close>

text \<open>An RDF term as the module reads it: \<^verbatim>\<open>matches[0].object.value\<close>.\<close>

record node =
  termType :: string
  node_value :: string

record triple =
  subject :: node
  predicate :: node
  object :: node

text \<open>
  The parsed body. The graph is the client library's object; the module only calls its
  \<^verbatim>\<open>match(subject, predicate, object)\<close> method, where \<^verbatim>\<open>null\<close> or a missing argument
  (\<open>None\<close>) is a wildcard.
\<close>

record graph =
  match :: "node option \<Rightarrow> node option \<Rightarrow> node option \<Rightarrow> triple list"

text \<open>\<^verbatim>\<open>webClient.rdf\<close>: the RDF library the client carries.\<close>

record rdf_namespace =
  namedNode :: "string \<Rightarrow> node"

text \<open>
  A response of the client. \<^verbatim>\<open>linkHeaders\<close> maps a relation type to the link target;
  \<^verbatim>\<open>parsedGraph()\<close> parses the body, and fails with an error of the client (\<open>Inl\<close>) on a body
  that does not parse; \<^verbatim>\<open>resources\<close> is the object whose keys are the members of a
  container, kept in the order of its keys.
\<close>

record 'e SolidResponse =
  linkHeaders :: "string \<rightharpoonup> string"
  parsedGraph :: "'e + graph"
  resources :: "(string \<times> string) list"

text \<open>The options of a request: \<^verbatim>\<open>{ headers: { name: value, ... } }\<close>.\<close>

record request_options =
  headers :: "(string \<times> string) list"

record ('s, 'e) SolidWebClient =
  get :: "string \<Rightarrow> request_options option \<Rightarrow> 's \<Rightarrow> ('e + 'e SolidResponse) \<times> 's"
  solidRequest ::
    "string \<Rightarrow> string \<Rightarrow> request_options \<Rightarrow> string \<Rightarrow> 's \<Rightarrow> ('e + 'e SolidResponse) \<times> 's"
  rdf :: rdf_namespace

text \<open>The options hashmap of \<^verbatim>\<open>list\<close> and \<^verbatim>\<open>send\<close>; a missing property is \<open>None\<close>.\<close>

record ('s, 'e) options =
  webClient :: "('s, 'e) SolidWebClient option"
  inboxUri :: "string option"
  contentType :: "string option"

text \<open>
  A rejection is either an error made by this module (\<^verbatim>\<open>new Error(message)\<close>) or whatever the
  client failed with, handed on as it is.
\<close>

datatype 'e error = Error string | ClientError 'e

text \<open>The calls the module makes on the client and on its responses.\<close>

datatype event =
  is_Get: Get string "request_options option"
| is_SolidRequest: SolidRequest string string request_options string
| is_ParsedGraph: ParsedGraph

type_synonym 's world = "'s \<times> event list"

type_synonym ('s, 'e, 'a) promise = "'s world \<Rightarrow> ('e error + 'a) \<times> 's world"

subsection \<open>Promises\<close>

definition resolve :: "'a \<Rightarrow> ('s, 'e, 'a) promise" where
  "resolve x w = (Inr x, w)"

definition reject :: "'e error \<Rightarrow> ('s, 'e, 'a) promise" where
  "reject e w = (Inl e, w)"

text \<open>\<^verbatim>\<open>p.then(f)\<close>: a rejected promise skips the callback.\<close>

definition then_promise ::
  "('s, 'e, 'a) promise \<Rightarrow> ('a \<Rightarrow> ('s, 'e, 'b) promise) \<Rightarrow> ('s, 'e, 'b) promise" where
  "then_promise p f w = (case p w of (Inl e, w') \<Rightarrow> (Inl e, w') | (Inr x, w') \<Rightarrow> f x w')"

text \<open>
  JavaScript's test of a value that is a string or \<^verbatim>\<open>undefined\<close>: \<^verbatim>\<open>undefined\<close> and the
  empty string are falsy. \<open>if_truthy x f g\<close> is \<^verbatim>\<open>if (x) { f(x) } else { g }\<close>.
\<close>

definition if_truthy :: "string option \<Rightarrow> (string \<Rightarrow> 'a) \<Rightarrow> 'a \<Rightarrow> 'a" where
  "if_truthy x f g = (case x of None \<Rightarrow> g | Some v \<Rightarrow> if v = [] then g else f v)"

text \<open>\<^verbatim>\<open>Object.keys\<close> of an object kept as the list of its properties.\<close>

definition Object_keys :: "(string \<times> 'v) list \<Rightarrow> string list" where
  "Object_keys obj = map fst obj"

subsection \<open>Calls on the client\<close>

definition failed :: "'e + 'a \<Rightarrow> 'e error + 'a" where
  "failed r = (case r of Inl e \<Rightarrow> Inl (ClientError e) | Inr x \<Rightarrow> Inr x)"

definition webClient_get ::
  "('s, 'e) SolidWebClient \<Rightarrow> string \<Rightarrow> request_options option \<Rightarrow>
   ('s, 'e, 'e SolidResponse) promise" where
  "webClient_get c uri opts w =
     (case get c uri opts (fst w) of
        (r, s') \<Rightarrow> (failed r, (s', snd w @ [Get uri opts])))"

definition webClient_solidRequest ::
  "('s, 'e) SolidWebClient \<Rightarrow> string \<Rightarrow> string \<Rightarrow> request_options \<Rightarrow> string \<Rightarrow>
   ('s, 'e, 'e SolidResponse) promise" where
  "webClient_solidRequest c uri method opts body w =
     (case solidRequest c uri method opts body (fst w) of
        (r, s') \<Rightarrow> (failed r, (s', snd w @ [SolidRequest uri method opts body])))"

definition resource_parsedGraph :: "'e SolidResponse \<Rightarrow> ('s, 'e, graph) promise" where
  "resource_parsedGraph resource w = (failed (parsedGraph resource), (fst w, snd w @ [ParsedGraph]))"

subsection \<open>The module with \<^verbatim>\<open>list\<close> (\<^verbatim>\<open>part_000\<close>)\<close>

definition DEFAULT_CONTENT_TYPE :: string where
  "DEFAULT_CONTENT_TYPE = ''application/ld+json''"

definition DEFAULT_ACCEPT :: string where
  "DEFAULT_ACCEPT = ''application/ld+json;q=0.9,text/turtle;q=0.8''"

definition INBOX_LINK_REL :: string where
  "INBOX_LINK_REL = ''http://www.w3.org/ns/ldp#inbox''"

text \<open>
  \<^verbatim>\<open>if (resource)\<close> asks whether the optional third argument was given: a response is
  an object, so it is truthy whenever it is there. \<^verbatim>\<open>if (matches.length)\<close> asks whether the
  list of matches is empty.
\<close>

definition discoverInboxUri ::
  "string \<Rightarrow> ('s, 'e) SolidWebClient \<Rightarrow> 'e SolidResponse option \<Rightarrow> ('s, 'e, string) promise" where
  "discoverInboxUri uri client resource =
     then_promise
       (then_promise (resolve ())
          (\<lambda>_. case resource of
                  Some resource \<Rightarrow> resolve resource
                | None \<Rightarrow>
                    let options = \<lparr>headers = [(''Accept'', DEFAULT_ACCEPT)]\<rparr>
                    in webClient_get client uri (Some options)))
       (\<lambda>resource.
          let inboxLinkRel = linkHeaders resource INBOX_LINK_REL in
          if_truthy inboxLinkRel (\<lambda>inboxLinkRel. resolve inboxLinkRel)
            (let ns = rdf client in
             then_promise (resource_parsedGraph resource)
               (\<lambda>body.
                  let matches = match body None (Some (namedNode ns INBOX_LINK_REL)) None in
                  case matches of
                    m # _ \<Rightarrow> resolve (node_value (object m))
                  | [] \<Rightarrow> reject (Error ''No inbox uri found for resource.''))))"

definition list ::
  "string \<Rightarrow> ('s, 'e) options \<Rightarrow> ('s, 'e, string list) promise" where
  "list resourceUri opts =
     (case webClient opts of
        None \<Rightarrow> reject (Error ''Web client instance is required'')
      | Some client \<Rightarrow>
          then_promise
            (then_promise
               (then_promise (resolve ())
                  (\<lambda>_. if_truthy (inboxUri opts) (\<lambda>inbox. resolve inbox)
                          (discoverInboxUri resourceUri client None)))
               (\<lambda>inbox.
                  let options = \<lparr>headers = [(''Accept'', DEFAULT_ACCEPT)]\<rparr>
                  in webClient_get client inbox (Some options)))
            (\<lambda>container. resolve (Object_keys (resources container))))"

definition send ::
  "string \<Rightarrow> string \<Rightarrow> ('s, 'e) options \<Rightarrow> ('s, 'e, 'e SolidResponse) promise" where
  "send resourceUri payload opts =
     (case webClient opts of
        None \<Rightarrow> reject (Error ''Web client instance is required'')
      | Some client \<Rightarrow>
          then_promise
            (then_promise (resolve ())
               (\<lambda>_. if_truthy (inboxUri opts) (\<lambda>inbox. resolve inbox)
                       (discoverInboxUri resourceUri client None)))
            (\<lambda>inbox.
               let ctype = if_truthy (contentType opts) (\<lambda>t. t) DEFAULT_CONTENT_TYPE;
                   postOptions = \<lparr>headers = [(''Content-Type'', ctype)]\<rparr>
               in webClient_solidRequest client inbox ''POST'' postOptions payload))"

text \<open>The options of both GETs of this copy.\<close>

abbreviation accept :: "request_options option" where
  "accept \<equiv> Some \<lparr>headers = [(''Accept'', DEFAULT_ACCEPT)]\<rparr>"

subsection \<open>\<^verbatim>\<open>src/index.js\<close>\<close>

text \<open>
  This copy has the same two constants \<^verbatim>\<open>DEFAULT_CONTENT_TYPE\<close> and \<^verbatim>\<open>INBOX_LINK_REL\<close> and
  no \<^verbatim>\<open>DEFAULT_ACCEPT\<close>: its discovery calls \<^verbatim>\<open>webClient.get(uri)\<close> with no options.
\<close>

definition index_discoverInboxUri ::
  "string \<Rightarrow> ('s, 'e) SolidWebClient \<Rightarrow> 'e SolidResponse option \<Rightarrow> ('s, 'e, string) promise" where
  "index_discoverInboxUri uri client resource =
     then_promise
       (then_promise (resolve ())
          (\<lambda>_. case resource of
                  Some resource \<Rightarrow> resolve resource
                | None \<Rightarrow> webClient_get client uri None))
       (\<lambda>resource.
          let inboxLinkRel = linkHeaders resource INBOX_LINK_REL in
          if_truthy inboxLinkRel (\<lambda>inboxLinkRel. resolve inboxLinkRel)
            (let ns = rdf client in
             then_promise (resource_parsedGraph resource)
               (\<lambda>body.
                  let matches = match body None (Some (namedNode ns INBOX_LINK_REL)) None in
                  case matches of
                    m # _ \<Rightarrow> resolve (node_value (object m))
                  | [] \<Rightarrow> reject (Error ''No inbox uri found for resource.''))))"

definition index_send ::
  "string \<Rightarrow> string \<Rightarrow> ('s, 'e) options \<Rightarrow> ('s, 'e, 'e SolidResponse) promise" where
  "index_send resourceUri payload opts =
     (case webClient opts of
        None \<Rightarrow> reject (Error ''Web client instance is required'')
      | Some client \<Rightarrow>
          then_promise
            (then_promise (resolve ())
               (\<lambda>_. if_truthy (inboxUri opts) (\<lambda>inbox. resolve inbox)
                       (index_discoverInboxUri resourceUri client None)))
            (\<lambda>inbox.
               let ctype = if_truthy (contentType opts) (\<lambda>t. t) DEFAULT_CONTENT_TYPE;
                   postOptions = \<lparr>headers = [(''Content-Type'', ctype)]\<rparr>
               in webClient_solidRequest client inbox ''POST'' postOptions payload))"

subsection \<open>A client to run the module on\<close>

text \<open>
  A small web: a list of pages by URI. The client answers a GET with the page, a request of
  any other method with the page as well, and fails with \<open>''404''\<close> where there is none; its
  state counts the requests it has served. Its graphs keep their triples in a list and
  \<open>match\<close> returns the matching ones in that order.
\<close>

definition example_rdf :: rdf_namespace where
  "example_rdf = \<lparr>namedNode = (\<lambda>iri. \<lparr>termType = ''NamedNode'', node_value = iri\<rparr>)\<rparr>"

definition example_graph :: "triple list \<Rightarrow> graph" where
  "example_graph ts =
     \<lparr>match = (\<lambda>s p ob.
        filter (\<lambda>t. (case s of None \<Rightarrow> True | Some x \<Rightarrow> subject t = x)
                  \<and> (case p of None \<Rightarrow> True | Some x \<Rightarrow> predicate t = x)
                  \<and> (case ob of None \<Rightarrow> True | Some x \<Rightarrow> object t = x)) ts)\<rparr>"

definition example_response ::
  "(string \<times> string) list \<Rightarrow> triple list \<Rightarrow> (string \<times> string) list \<Rightarrow> string SolidResponse" where
  "example_response links ts members =
     \<lparr>linkHeaders = map_of links, parsedGraph = Inr (example_graph ts), resources = members\<rparr>"

definition example_client :: "(string \<times> string SolidResponse) list \<Rightarrow> (nat, string) SolidWebClient" where
  "example_client pages =
     \<lparr>get = (\<lambda>uri opts n.
        (case map_of pages uri of None \<Rightarrow> Inl ''404'' | Some r \<Rightarrow> Inr r, Suc n)),
      solidRequest = (\<lambda>uri method opts body n.
        (case map_of pages uri of None \<Rightarrow> Inl ''404'' | Some r \<Rightarrow> Inr r, Suc n)),
      rdf = example_rdf\<rparr>"

definition doc_uri :: string where
  "doc_uri = ''https://example.org/doc''"

definition inbox_uri :: string where
  "inbox_uri = ''https://example.org/inbox''"

definition inbox_triple :: triple where
  "inbox_triple =
     \<lparr>subject = namedNode example_rdf doc_uri,
      predicate = namedNode example_rdf INBOX_LINK_REL,
      object = namedNode example_rdf inbox_uri\<rparr>"

text \<open>The inbox itself: a container of two notifications.\<close>

definition inbox_page :: "string SolidResponse" where
  "inbox_page =
     example_response [] []
       [(''https://example.org/inbox/1'', ''''), (''https://example.org/inbox/2'', '''')]"

text \<open>
  Four documents: the inbox in a link header, in the body, nowhere, and an empty link
  header beside an inbox in the body.
\<close>

definition doc_linked :: "string SolidResponse" where
  "doc_linked = example_response [(INBOX_LINK_REL, inbox_uri)] [] []"

definition doc_described :: "string SolidResponse" where
  "doc_described = example_response [] [inbox_triple] []"

definition doc_plain :: "string SolidResponse" where
  "doc_plain = example_response [] [] []"

definition doc_empty_link :: "string SolidResponse" where
  "doc_empty_link = example_response [(INBOX_LINK_REL, '''')] [inbox_triple] []"

definition web :: "string SolidResponse \<Rightarrow> (nat, string) SolidWebClient" where
  "web doc = example_client [(doc_uri, doc), (inbox_uri, inbox_page)]"

section \<open>Properties\<close>

lemmas promise_defs = then_promise_def resolve_def reject_def if_truthy_def webClient_get_def
  webClient_solidRequest_def resource_parsedGraph_def failed_def

lemmas example_defs = web_def example_client_def example_response_def example_graph_def
  example_rdf_def doc_uri_def inbox_uri_def inbox_triple_def INBOX_LINK_REL_def

subsection \<open>What discovery asks of the client\<close>

text \<open>
  Without a resource at hand, discovery issues one GET, to the resource's URI, whatever
  happens next; the copy with \<^verbatim>\<open>list\<close> sends the \<^verbatim>\<open>Accept\<close> header with it. Discovery never
  issues any other request.
\<close>

lemma discoverInboxUri_single_get:
  "filter is_Get (snd (snd (discoverInboxUri uri c None (s, tr)))) =
     filter is_Get tr @ [Get uri accept]"
  by (auto simp add: discoverInboxUri_def promise_defs
      split: option.splits if_splits sum.splits list.splits prod.splits)

lemma discoverInboxUri_no_request:
  "filter is_SolidRequest (snd (snd (discoverInboxUri uri c resource (s, tr)))) =
     filter is_SolidRequest tr"
  by (auto simp add: discoverInboxUri_def promise_defs
      split: option.splits if_splits sum.splits list.splits prod.splits)

lemma index_discoverInboxUri_no_request:
  "filter is_SolidRequest (snd (snd (index_discoverInboxUri uri c resource (s, tr)))) =
     filter is_SolidRequest tr"
  by (auto simp add: index_discoverInboxUri_def promise_defs
      split: option.splits if_splits sum.splits list.splits prod.splits)

text \<open>The pages of the example web, as the client serves them.\<close>

lemma web_get_doc: "get (web doc) doc_uri opts n = (Inr doc, Suc n)"
  by (simp add: web_def example_client_def doc_uri_def)

lemma web_get_inbox: "get (web doc) inbox_uri opts n = (Inr inbox_page, Suc n)"
  by (simp add: web_def example_client_def doc_uri_def inbox_uri_def)

lemma web_post_inbox: "solidRequest (web doc) inbox_uri method opts body n = (Inr inbox_page, Suc n)"
  by (simp add: web_def example_client_def doc_uri_def inbox_uri_def)

lemma web_match_described:
  "match (example_graph [inbox_triple]) None (Some (namedNode (rdf (web doc)) INBOX_LINK_REL)) None =
     [inbox_triple]"
  by (simp add: example_defs)

lemma web_match_plain:
  "match (example_graph []) None (Some (namedNode (rdf (web doc)) INBOX_LINK_REL)) None = []"
  by (simp add: example_defs)

subsection \<open>Discovery by the link header\<close>

text \<open>
  C1, as the code has it. A resource whose link headers give a non-empty value for
  \<^verbatim>\<open>http://www.w3.org/ns/ldp#inbox\<close>: discovery resolves to exactly that value, and
  \<^verbatim>\<open>parsedGraph\<close> is not called. The calls made are none when the resource was handed in, and
  the one GET when it was fetched. Both copies of the module.
\<close>

theorem discoverInboxUri_link_header:
  assumes "linkHeaders r INBOX_LINK_REL = Some v" and "v \<noteq> []"
  shows "discoverInboxUri uri c (Some r) (s, tr) = (Inr v, (s, tr))
    \<and> (get c uri accept s = (Inr r, s') \<longrightarrow>
         discoverInboxUri uri c None (s, tr) = (Inr v, (s', tr @ [Get uri accept])))
    \<and> index_discoverInboxUri uri c (Some r) (s, tr) = (Inr v, (s, tr))
    \<and> (get c uri None s = (Inr r, s') \<longrightarrow>
         index_discoverInboxUri uri c None (s, tr) = (Inr v, (s', tr @ [Get uri None])))"
  using assms by (simp add: discoverInboxUri_def index_discoverInboxUri_def promise_defs)

theorem discoverInboxUri_link_header_witness:
  "discoverInboxUri doc_uri (web doc_linked) (Some doc_linked) (0, []) = (Inr inbox_uri, (0, []))
   \<and> discoverInboxUri doc_uri (web doc_linked) None (0, []) =
       (Inr inbox_uri, (Suc 0, [Get doc_uri accept]))
   \<and> index_discoverInboxUri doc_uri (web doc_linked) None (0, []) =
       (Inr inbox_uri, (Suc 0, [Get doc_uri None]))"
proof -
  have link: "linkHeaders doc_linked INBOX_LINK_REL = Some inbox_uri"
    by (simp add: doc_linked_def example_response_def)
  have nonempty: "inbox_uri \<noteq> []"
    by (simp add: inbox_uri_def)
  from discoverInboxUri_link_header [where uri = doc_uri and c = "web doc_linked" and s = 0
      and tr = "[]" and s' = "Suc 0", OF link nonempty]
  show ?thesis by (simp add: web_get_doc)
qed

text \<open>
  C1 as it is written fails where the value in the link headers is the empty string: the
  document below has that header and an inbox triple in its body, and discovery parses the
  body and resolves to the triple's object.
\<close>

theorem discoverInboxUri_empty_link_header_counterexample:
  "linkHeaders doc_empty_link INBOX_LINK_REL = Some ''''
   \<and> discoverInboxUri doc_uri (web doc_empty_link) (Some doc_empty_link) (0, []) =
       (Inr inbox_uri, (0, [ParsedGraph]))
   \<and> index_discoverInboxUri doc_uri (web doc_empty_link) (Some doc_empty_link) (0, []) =
       (Inr inbox_uri, (0, [ParsedGraph]))"
  by (simp add: discoverInboxUri_def index_discoverInboxUri_def promise_defs doc_empty_link_def
      example_defs)

subsection \<open>Discovery by the body\<close>

text \<open>
  C2. A resource with no inbox link header, whose body parses to a graph where \<^verbatim>\<open>match\<close> with
  the inbox predicate (subject and object left open) returns at least one triple: discovery
  resolves to the value of the object of the first triple returned. Both copies.
\<close>

theorem discoverInboxUri_body_triple:
  assumes "linkHeaders r INBOX_LINK_REL = None"
    and "parsedGraph r = Inr body"
    and "match body None (Some (namedNode (rdf c) INBOX_LINK_REL)) None = m # ms"
  shows "discoverInboxUri uri c (Some r) (s, tr) =
           (Inr (node_value (object m)), (s, tr @ [ParsedGraph]))
    \<and> (get c uri accept s = (Inr r, s') \<longrightarrow>
         discoverInboxUri uri c None (s, tr) =
           (Inr (node_value (object m)), (s', tr @ [Get uri accept, ParsedGraph])))
    \<and> index_discoverInboxUri uri c (Some r) (s, tr) =
         (Inr (node_value (object m)), (s, tr @ [ParsedGraph]))
    \<and> (get c uri None s = (Inr r, s') \<longrightarrow>
         index_discoverInboxUri uri c None (s, tr) =
           (Inr (node_value (object m)), (s', tr @ [Get uri None, ParsedGraph])))"
  using assms by (simp add: discoverInboxUri_def index_discoverInboxUri_def promise_defs)

theorem discoverInboxUri_body_triple_witness:
  "discoverInboxUri doc_uri (web doc_described) (Some doc_described) (0, []) =
     (Inr inbox_uri, (0, [ParsedGraph]))
   \<and> discoverInboxUri doc_uri (web doc_described) None (0, []) =
       (Inr inbox_uri, (Suc 0, [Get doc_uri accept, ParsedGraph]))
   \<and> index_discoverInboxUri doc_uri (web doc_described) None (0, []) =
       (Inr inbox_uri, (Suc 0, [Get doc_uri None, ParsedGraph]))"
proof -
  have link: "linkHeaders doc_described INBOX_LINK_REL = None"
    by (simp add: doc_described_def example_response_def)
  have parsed: "parsedGraph doc_described = Inr (example_graph [inbox_triple])"
    by (simp add: doc_described_def example_response_def)
  have "node_value (object inbox_triple) = inbox_uri"
    by (simp add: inbox_triple_def example_rdf_def)
  with discoverInboxUri_body_triple [where uri = doc_uri and s = 0 and tr = "[]"
      and s' = "Suc 0", OF link parsed web_match_described]
  show ?thesis by (simp add: web_get_doc)
qed

subsection \<open>No inbox\<close>

text \<open>The module's own error comes from one place: after the link header was looked up and
  found falsy, the body parsed, and \<^verbatim>\<open>match\<close> returned nothing.\<close>

lemma discoverInboxUri_Error_given:
  assumes "discoverInboxUri uri c (Some r) (s, tr) = (Inl (Error msg), w')"
  shows "msg = ''No inbox uri found for resource.''
    \<and> linkHeaders r INBOX_LINK_REL \<in> {None, Some []}
    \<and> (\<exists>body. parsedGraph r = Inr body
          \<and> match body None (Some (namedNode (rdf c) INBOX_LINK_REL)) None = [])
    \<and> w' = (s, tr @ [ParsedGraph])"
  using assms
  by (auto simp add: discoverInboxUri_def promise_defs
      split: option.splits if_splits sum.splits list.splits)

lemma discoverInboxUri_Error_fetched:
  assumes "discoverInboxUri uri c None (s, tr) = (Inl (Error msg), w')"
  shows "msg = ''No inbox uri found for resource.''
    \<and> (\<exists>r s' body. get c uri accept s = (Inr r, s')
          \<and> linkHeaders r INBOX_LINK_REL \<in> {None, Some []}
          \<and> parsedGraph r = Inr body
          \<and> match body None (Some (namedNode (rdf c) INBOX_LINK_REL)) None = []
          \<and> w' = (s', tr @ [Get uri accept, ParsedGraph]))"
  using assms
  by (auto simp add: discoverInboxUri_def promise_defs
      split: option.splits if_splits sum.splits list.splits prod.splits)

lemma index_discoverInboxUri_Error_given:
  assumes "index_discoverInboxUri uri c (Some r) (s, tr) = (Inl (Error msg), w')"
  shows "msg = ''No inbox uri found for resource.''
    \<and> linkHeaders r INBOX_LINK_REL \<in> {None, Some []}
    \<and> (\<exists>body. parsedGraph r = Inr body
          \<and> match body None (Some (namedNode (rdf c) INBOX_LINK_REL)) None = [])
    \<and> w' = (s, tr @ [ParsedGraph])"
  using assms
  by (auto simp add: index_discoverInboxUri_def promise_defs
      split: option.splits if_splits sum.splits list.splits)

lemma index_discoverInboxUri_Error_fetched:
  assumes "index_discoverInboxUri uri c None (s, tr) = (Inl (Error msg), w')"
  shows "msg = ''No inbox uri found for resource.''
    \<and> (\<exists>r s' body. get c uri None s = (Inr r, s')
          \<and> linkHeaders r INBOX_LINK_REL \<in> {None, Some []}
          \<and> parsedGraph r = Inr body
          \<and> match body None (Some (namedNode (rdf c) INBOX_LINK_REL)) None = []
          \<and> w' = (s', tr @ [Get uri None, ParsedGraph]))"
  using assms
  by (auto simp add: index_discoverInboxUri_def promise_defs
      split: option.splits if_splits sum.splits list.splits prod.splits)

text \<open>A failure of the client, of the GET or of the parse, is handed on as it is.\<close>

lemma discoverInboxUri_client_failure:
  "(get c uri accept s = (Inl e, s') \<longrightarrow>
      discoverInboxUri uri c None (s, tr) = (Inl (ClientError e), (s', tr @ [Get uri accept])))
   \<and> (linkHeaders r INBOX_LINK_REL \<in> {None, Some []} \<and> parsedGraph r = Inl e \<longrightarrow>
      discoverInboxUri uri c (Some r) (s, tr) = (Inl (ClientError e), (s, tr @ [ParsedGraph])))"
  by (auto simp add: discoverInboxUri_def promise_defs)

lemma index_discoverInboxUri_client_failure:
  "(get c uri None s = (Inl e, s') \<longrightarrow>
      index_discoverInboxUri uri c None (s, tr) = (Inl (ClientError e), (s', tr @ [Get uri None])))
   \<and> (linkHeaders r INBOX_LINK_REL \<in> {None, Some []} \<and> parsedGraph r = Inl e \<longrightarrow>
      index_discoverInboxUri uri c (Some r) (s, tr) =
        (Inl (ClientError e), (s, tr @ [ParsedGraph])))"
  by (auto simp add: index_discoverInboxUri_def promise_defs)

lemma discoverInboxUri_nothing_found:
  assumes "linkHeaders r INBOX_LINK_REL = None"
    and "parsedGraph r = Inr body"
    and "match body None (Some (namedNode (rdf c) INBOX_LINK_REL)) None = []"
  shows "discoverInboxUri uri c (Some r) (s, tr) =
           (Inl (Error ''No inbox uri found for resource.''), (s, tr @ [ParsedGraph]))
    \<and> (get c uri accept s = (Inr r, s') \<longrightarrow>
         discoverInboxUri uri c None (s, tr) =
           (Inl (Error ''No inbox uri found for resource.''),
            (s', tr @ [Get uri accept, ParsedGraph])))
    \<and> index_discoverInboxUri uri c (Some r) (s, tr) =
         (Inl (Error ''No inbox uri found for resource.''), (s, tr @ [ParsedGraph]))
    \<and> (get c uri None s = (Inr r, s') \<longrightarrow>
         index_discoverInboxUri uri c None (s, tr) =
           (Inl (Error ''No inbox uri found for resource.''),
            (s', tr @ [Get uri None, ParsedGraph])))"
  using assms by (simp add: discoverInboxUri_def index_discoverInboxUri_def promise_defs)

text \<open>
  C3. A resource with no inbox link header and a body in which \<^verbatim>\<open>match\<close> finds no inbox
  triple: discovery is rejected with the error \<^verbatim>\<open>No inbox uri found for resource.\<close>, after the
  body was parsed (first part). That error is raised only there: whenever discovery is
  rejected with an error of the module, the message is this one, the link header was absent
  or empty, the body parsed and \<^verbatim>\<open>match\<close> returned no triple (second to fourth part). What
  the client fails with, on the GET or on the parse, is handed on as a \<open>ClientError\<close>, which
  is never an \<open>Error\<close> (last part). Both copies of the module.
\<close>

theorem discoverInboxUri_no_inbox:
  "(linkHeaders r INBOX_LINK_REL = None \<and> parsedGraph r = Inr body
      \<and> match body None (Some (namedNode (rdf c) INBOX_LINK_REL)) None = [] \<longrightarrow>
      discoverInboxUri uri c (Some r) (s, tr) =
        (Inl (Error ''No inbox uri found for resource.''), (s, tr @ [ParsedGraph]))
      \<and> (get c uri accept s = (Inr r, s') \<longrightarrow>
           discoverInboxUri uri c None (s, tr) =
             (Inl (Error ''No inbox uri found for resource.''),
              (s', tr @ [Get uri accept, ParsedGraph])))
      \<and> index_discoverInboxUri uri c (Some r) (s, tr) =
          (Inl (Error ''No inbox uri found for resource.''), (s, tr @ [ParsedGraph]))
      \<and> (get c uri None s = (Inr r, s') \<longrightarrow>
           index_discoverInboxUri uri c None (s, tr) =
             (Inl (Error ''No inbox uri found for resource.''),
              (s', tr @ [Get uri None, ParsedGraph]))))
   \<and> (discoverInboxUri uri c (Some r) (s, tr) = (Inl (Error msg), w')
        \<or> index_discoverInboxUri uri c (Some r) (s, tr) = (Inl (Error msg), w') \<longrightarrow>
      msg = ''No inbox uri found for resource.''
      \<and> linkHeaders r INBOX_LINK_REL \<in> {None, Some []}
      \<and> (\<exists>g. parsedGraph r = Inr g
            \<and> match g None (Some (namedNode (rdf c) INBOX_LINK_REL)) None = [])
      \<and> w' = (s, tr @ [ParsedGraph]))
   \<and> (discoverInboxUri uri c None (s, tr) = (Inl (Error msg), w') \<longrightarrow>
      msg = ''No inbox uri found for resource.''
      \<and> (\<exists>r1 s1 g. get c uri accept s = (Inr r1, s1)
            \<and> linkHeaders r1 INBOX_LINK_REL \<in> {None, Some []}
            \<and> parsedGraph r1 = Inr g
            \<and> match g None (Some (namedNode (rdf c) INBOX_LINK_REL)) None = []
            \<and> w' = (s1, tr @ [Get uri accept, ParsedGraph])))
   \<and> (index_discoverInboxUri uri c None (s, tr) = (Inl (Error msg), w') \<longrightarrow>
      msg = ''No inbox uri found for resource.''
      \<and> (\<exists>r1 s1 g. get c uri None s = (Inr r1, s1)
            \<and> linkHeaders r1 INBOX_LINK_REL \<in> {None, Some []}
            \<and> parsedGraph r1 = Inr g
            \<and> match g None (Some (namedNode (rdf c) INBOX_LINK_REL)) None = []
            \<and> w' = (s1, tr @ [Get uri None, ParsedGraph])))
   \<and> (get c uri accept s = (Inl e, s') \<longrightarrow>
        discoverInboxUri uri c None (s, tr) = (Inl (ClientError e), (s', tr @ [Get uri accept])))
   \<and> (get c uri None s = (Inl e, s') \<longrightarrow>
        index_discoverInboxUri uri c None (s, tr) =
          (Inl (ClientError e), (s', tr @ [Get uri None])))
   \<and> (linkHeaders r INBOX_LINK_REL \<in> {None, Some []} \<and> parsedGraph r = Inl e \<longrightarrow>
        discoverInboxUri uri c (Some r) (s, tr) = (Inl (ClientError e), (s, tr @ [ParsedGraph]))
        \<and> index_discoverInboxUri uri c (Some r) (s, tr) =
            (Inl (ClientError e), (s, tr @ [ParsedGraph])))
   \<and> ClientError e \<noteq> Error ''No inbox uri found for resource.''"
proof (intro conjI)
  show "linkHeaders r INBOX_LINK_REL = None \<and> parsedGraph r = Inr body
      \<and> match body None (Some (namedNode (rdf c) INBOX_LINK_REL)) None = [] \<longrightarrow>
      discoverInboxUri uri c (Some r) (s, tr) =
        (Inl (Error ''No inbox uri found for resource.''), (s, tr @ [ParsedGraph]))
      \<and> (get c uri accept s = (Inr r, s') \<longrightarrow>
           discoverInboxUri uri c None (s, tr) =
             (Inl (Error ''No inbox uri found for resource.''),
              (s', tr @ [Get uri accept, ParsedGraph])))
      \<and> index_discoverInboxUri uri c (Some r) (s, tr) =
          (Inl (Error ''No inbox uri found for resource.''), (s, tr @ [ParsedGraph]))
      \<and> (get c uri None s = (Inr r, s') \<longrightarrow>
           index_discoverInboxUri uri c None (s, tr) =
             (Inl (Error ''No inbox uri found for resource.''),
              (s', tr @ [Get uri None, ParsedGraph])))"
    using discoverInboxUri_nothing_found [of r body c uri s tr s'] by blast
next
  show "discoverInboxUri uri c (Some r) (s, tr) = (Inl (Error msg), w')
        \<or> index_discoverInboxUri uri c (Some r) (s, tr) = (Inl (Error msg), w') \<longrightarrow>
      msg = ''No inbox uri found for resource.''
      \<and> linkHeaders r INBOX_LINK_REL \<in> {None, Some []}
      \<and> (\<exists>g. parsedGraph r = Inr g
            \<and> match g None (Some (namedNode (rdf c) INBOX_LINK_REL)) None = [])
      \<and> w' = (s, tr @ [ParsedGraph])"
    using discoverInboxUri_Error_given [of uri c r s tr msg w']
      index_discoverInboxUri_Error_given [of uri c r s tr msg w'] by blast
next
  show "discoverInboxUri uri c None (s, tr) = (Inl (Error msg), w') \<longrightarrow>
      msg = ''No inbox uri found for resource.''
      \<and> (\<exists>r1 s1 g. get c uri accept s = (Inr r1, s1)
            \<and> linkHeaders r1 INBOX_LINK_REL \<in> {None, Some []}
            \<and> parsedGraph r1 = Inr g
            \<and> match g None (Some (namedNode (rdf c) INBOX_LINK_REL)) None = []
            \<and> w' = (s1, tr @ [Get uri accept, ParsedGraph]))"
    using discoverInboxUri_Error_fetched [of uri c s tr msg w'] by blast
next
  show "index_discoverInboxUri uri c None (s, tr) = (Inl (Error msg), w') \<longrightarrow>
      msg = ''No inbox uri found for resource.''
      \<and> (\<exists>r1 s1 g. get c uri None s = (Inr r1, s1)
            \<and> linkHeaders r1 INBOX_LINK_REL \<in> {None, Some []}
            \<and> parsedGraph r1 = Inr g
            \<and> match g None (Some (namedNode (rdf c) INBOX_LINK_REL)) None = []
            \<and> w' = (s1, tr @ [Get uri None, ParsedGraph]))"
    using index_discoverInboxUri_Error_fetched [of uri c s tr msg w'] by blast
next
  show "get c uri accept s = (Inl e, s') \<longrightarrow>
        discoverInboxUri uri c None (s, tr) = (Inl (ClientError e), (s', tr @ [Get uri accept]))"
    using discoverInboxUri_client_failure [of c uri s e s' tr r] by blast
next
  show "get c uri None s = (Inl e, s') \<longrightarrow>
        index_discoverInboxUri uri c None (s, tr) =
          (Inl (ClientError e), (s', tr @ [Get uri None]))"
    using index_discoverInboxUri_client_failure [of c uri s e s' tr r] by blast
next
  show "linkHeaders r INBOX_LINK_REL \<in> {None, Some []} \<and> parsedGraph r = Inl e \<longrightarrow>
        discoverInboxUri uri c (Some r) (s, tr) = (Inl (ClientError e), (s, tr @ [ParsedGraph]))
        \<and> index_discoverInboxUri uri c (Some r) (s, tr) =
            (Inl (ClientError e), (s, tr @ [ParsedGraph]))"
    using discoverInboxUri_client_failure [of c uri s e s' tr r]
      index_discoverInboxUri_client_failure [of c uri s e s' tr r] by blast
next
  show "ClientError e \<noteq> Error ''No inbox uri found for resource.''"
    by simp
qed

theorem discoverInboxUri_no_inbox_witness:
  "discoverInboxUri doc_uri (web doc_plain) (Some doc_plain) (0, []) =
     (Inl (Error ''No inbox uri found for resource.''), (0, [ParsedGraph]))
   \<and> discoverInboxUri doc_uri (web doc_plain) None (0, []) =
       (Inl (Error ''No inbox uri found for resource.''), (Suc 0, [Get doc_uri accept, ParsedGraph]))
   \<and> index_discoverInboxUri doc_uri (web doc_plain) None (0, []) =
       (Inl (Error ''No inbox uri found for resource.''), (Suc 0, [Get doc_uri None, ParsedGraph]))
   \<and> discoverInboxUri ''https://example.org/none'' (web doc_plain) None (0, []) =
       (Inl (ClientError ''404''), (Suc 0, [Get ''https://example.org/none'' accept]))"
proof -
  have lacking: "linkHeaders doc_plain INBOX_LINK_REL = None
      \<and> parsedGraph doc_plain = Inr (example_graph [])
      \<and> match (example_graph []) None (Some (namedNode (rdf (web doc_plain)) INBOX_LINK_REL)) None = []"
    by (simp add: doc_plain_def example_response_def web_match_plain)
  have missing: "get (web doc_plain) ''https://example.org/none'' accept 0 = (Inl ''404'', Suc 0)"
    by (simp add: web_def example_client_def doc_uri_def inbox_uri_def)
  note at_doc = discoverInboxUri_no_inbox [where r = doc_plain and body = "example_graph []"
      and c = "web doc_plain" and uri = doc_uri and s = 0 and tr = "[]" and s' = "Suc 0",
      THEN conjunct1]
  note at_none = discoverInboxUri_no_inbox [where c = "web doc_plain"
      and uri = "''https://example.org/none''" and s = 0 and tr = "[]" and s' = "Suc 0"
      and e = "''404''", THEN conjunct2, THEN conjunct2, THEN conjunct2, THEN conjunct2,
      THEN conjunct1]
  have given: "discoverInboxUri doc_uri (web doc_plain) (Some doc_plain) (0, []) =
      (Inl (Error ''No inbox uri found for resource.''), (0, [ParsedGraph]))"
    using lacking at_doc by simp
  have fetched: "discoverInboxUri doc_uri (web doc_plain) None (0, []) =
      (Inl (Error ''No inbox uri found for resource.''), (Suc 0, [Get doc_uri accept, ParsedGraph]))"
    using lacking web_get_doc [of doc_plain accept 0] at_doc by simp
  have index_fetched: "index_discoverInboxUri doc_uri (web doc_plain) None (0, []) =
      (Inl (Error ''No inbox uri found for resource.''), (Suc 0, [Get doc_uri None, ParsedGraph]))"
    using lacking web_get_doc [of doc_plain None 0] at_doc by simp
  have failure: "discoverInboxUri ''https://example.org/none'' (web doc_plain) None (0, []) =
      (Inl (ClientError ''404''), (Suc 0, [Get ''https://example.org/none'' accept]))"
    using missing at_none by simp
  from given fetched index_fetched failure show ?thesis
    by simp
qed

subsection \<open>An empty link header\<close>

text \<open>
  C10. Where the link headers map the inbox relation to the empty string (the one falsy
  value a string can be), discovery goes on as if the header were absent: it calls
  \<^verbatim>\<open>parsedGraph\<close> and answers from the body, with the first inbox triple's object, with the
  "no inbox" error when there is none, or with the parse failure. Both copies.
\<close>

theorem discoverInboxUri_falsy_link_header:
  assumes "linkHeaders r INBOX_LINK_REL = Some []"
  shows "discoverInboxUri uri c (Some r) (s, tr) =
           ((case parsedGraph r of
               Inl e \<Rightarrow> Inl (ClientError e)
             | Inr body \<Rightarrow>
                 (case match body None (Some (namedNode (rdf c) INBOX_LINK_REL)) None of
                    [] \<Rightarrow> Inl (Error ''No inbox uri found for resource.'')
                  | m # _ \<Rightarrow> Inr (node_value (object m)))),
            (s, tr @ [ParsedGraph]))
    \<and> discoverInboxUri uri c (Some r) (s, tr) =
        discoverInboxUri uri c (Some (r\<lparr>linkHeaders := (linkHeaders r)(INBOX_LINK_REL := None)\<rparr>)) (s, tr)
    \<and> index_discoverInboxUri uri c (Some r) (s, tr) = discoverInboxUri uri c (Some r) (s, tr)
    \<and> (get c uri accept s = (Inr r, s') \<longrightarrow>
         discoverInboxUri uri c None (s, tr) =
           discoverInboxUri uri c (Some r) (s', tr @ [Get uri accept]))
    \<and> (get c uri None s = (Inr r, s') \<longrightarrow>
         index_discoverInboxUri uri c None (s, tr) =
           discoverInboxUri uri c (Some r) (s', tr @ [Get uri None]))"
  using assms
  by (simp add: discoverInboxUri_def index_discoverInboxUri_def promise_defs
      split: sum.splits list.splits)

theorem discoverInboxUri_falsy_link_header_witness:
  "discoverInboxUri doc_uri (web doc_empty_link) (Some doc_empty_link) (0, []) =
     (Inr inbox_uri, (0, [ParsedGraph]))
   \<and> discoverInboxUri doc_uri (web doc_empty_link) None (0, []) =
       (Inr inbox_uri, (Suc 0, [Get doc_uri accept, ParsedGraph]))
   \<and> index_discoverInboxUri doc_uri (web doc_empty_link) None (0, []) =
       (Inr inbox_uri, (Suc 0, [Get doc_uri None, ParsedGraph]))"
proof -
  have link: "linkHeaders doc_empty_link INBOX_LINK_REL = Some []"
    by (simp add: doc_empty_link_def example_response_def)
  have parsed: "parsedGraph doc_empty_link = Inr (example_graph [inbox_triple])"
    by (simp add: doc_empty_link_def example_response_def)
  have val: "node_value (object inbox_triple) = inbox_uri"
    by (simp add: inbox_triple_def example_rdf_def)
  note first = discoverInboxUri_falsy_link_header [OF link,
      where uri = doc_uri and c = "web doc_empty_link" and s = 0 and tr = "[]" and s' = "Suc 0"]
  have given: "discoverInboxUri doc_uri (web doc_empty_link) (Some doc_empty_link) (n, tr) =
      (Inr inbox_uri, (n, tr @ [ParsedGraph]))" for n tr
    using discoverInboxUri_falsy_link_header [OF link,
      where uri = doc_uri and c = "web doc_empty_link" and s = n and tr = tr]
    by (simp add: parsed web_match_described val)
  from first show ?thesis
    by (simp add: given web_get_doc)
qed

subsection \<open>A pre-fetched resource\<close>

text \<open>
  C6. With a resource handed in as the third argument, discovery calls the client's \<^verbatim>\<open>get\<close>
  never: the state of the world is as before, and the only call that may have been added to
  the calls made is the parse of the body. Both copies.
\<close>

theorem discoverInboxUri_given_resource_no_get:
  "snd (discoverInboxUri uri c (Some r) (s, tr)) \<in> {(s, tr), (s, tr @ [ParsedGraph])}
   \<and> snd (index_discoverInboxUri uri c (Some r) (s, tr)) \<in> {(s, tr), (s, tr @ [ParsedGraph])}"
  by (simp add: discoverInboxUri_def index_discoverInboxUri_def promise_defs
      split: option.splits if_splits sum.splits list.splits)

subsection \<open>The header of the discovery GET\<close>

text \<open>
  C9 holds of the copy with \<^verbatim>\<open>list\<close> (lemma \<open>discoverInboxUri_single_get\<close> above). In
  \<^verbatim>\<open>src/index.js\<close> it fails: without a resource at hand discovery issues its one GET with no
  options at all, so with no \<^verbatim>\<open>Accept\<close> header.
\<close>

theorem index_discoverInboxUri_get_without_accept:
  "filter is_Get (snd (snd (index_discoverInboxUri uri c None (s, tr)))) =
     filter is_Get tr @ [Get uri None]"
  by (auto simp add: index_discoverInboxUri_def promise_defs
      split: option.splits if_splits sum.splits list.splits prod.splits)

subsection \<open>The web client is required\<close>

text \<open>
  C4. Called with options that hold no web client, \<^verbatim>\<open>list\<close> and \<^verbatim>\<open>send\<close> are rejected with the
  error \<^verbatim>\<open>Web client instance is required\<close>; the state of the world and the calls made are
  as before, so nothing was requested and discovery, which starts with a GET, was not run.
  Both copies of \<^verbatim>\<open>send\<close>.
\<close>

theorem list_send_require_webClient:
  assumes "webClient opts = None"
  shows "list resourceUri opts w = (Inl (Error ''Web client instance is required''), w)
    \<and> send resourceUri payload opts w = (Inl (Error ''Web client instance is required''), w)
    \<and> index_send resourceUri payload opts w = (Inl (Error ''Web client instance is required''), w)"
  using assms by (simp add: list_def send_def index_send_def reject_def)

theorem list_send_require_webClient_witness:
  "list doc_uri (\<lparr>webClient = None, inboxUri = Some inbox_uri, contentType = None\<rparr>
      :: (nat, string) options) (0, []) =
     (Inl (Error ''Web client instance is required''), (0, []))
   \<and> send doc_uri ''{}'' (\<lparr>webClient = None, inboxUri = Some inbox_uri, contentType = None\<rparr>
      :: (nat, string) options) (0, []) =
     (Inl (Error ''Web client instance is required''), (0, []))
   \<and> index_send doc_uri ''{}'' (\<lparr>webClient = None, inboxUri = Some inbox_uri, contentType = None\<rparr>
      :: (nat, string) options) (0, []) =
     (Inl (Error ''Web client instance is required''), (0, []))"
proof -
  have none: "webClient (\<lparr>webClient = None, inboxUri = Some inbox_uri, contentType = None\<rparr>
      :: (nat, string) options) = None"
    by simp
  from list_send_require_webClient [OF none, of doc_uri "(0, [])" "''{}''"]
  show ?thesis .
qed

subsection \<open>A known inbox\<close>

text \<open>Discovery on the example web, run once for the examples below.\<close>

lemma web_discover_linked:
  "discoverInboxUri doc_uri (web doc_linked) None (n, tr) =
     (Inr inbox_uri, (Suc n, tr @ [Get doc_uri accept]))"
  by (simp add: discoverInboxUri_def promise_defs web_get_doc doc_linked_def example_response_def
      inbox_uri_def)

lemma web_index_discover_linked:
  "index_discoverInboxUri doc_uri (web doc_linked) None (n, tr) =
     (Inr inbox_uri, (Suc n, tr @ [Get doc_uri None]))"
  by (simp add: index_discoverInboxUri_def promise_defs web_get_doc doc_linked_def
      example_response_def inbox_uri_def)

text \<open>
  C5, as the code has it. With a web client and a non-empty \<^verbatim>\<open>inboxUri\<close> in the options,
  \<^verbatim>\<open>list\<close> makes one call, the GET of that inbox, and \<^verbatim>\<open>send\<close> makes one call, the POST to
  it: no discovery GET comes before. Both copies of \<^verbatim>\<open>send\<close>.
\<close>

theorem known_inbox_skips_discovery:
  assumes "webClient opts = Some c" and "inboxUri opts = Some u" and "u \<noteq> []"
    and "post = \<lparr>headers =
           [(''Content-Type'', if_truthy (contentType opts) (\<lambda>t. t) DEFAULT_CONTENT_TYPE)]\<rparr>"
  shows "snd (list resourceUri opts (s, tr)) = (snd (get c u accept s), tr @ [Get u accept])
    \<and> snd (send resourceUri payload opts (s, tr)) =
        (snd (solidRequest c u ''POST'' post payload s), tr @ [SolidRequest u ''POST'' post payload])
    \<and> snd (index_send resourceUri payload opts (s, tr)) =
        (snd (solidRequest c u ''POST'' post payload s), tr @ [SolidRequest u ''POST'' post payload])"
  using assms
  by (simp add: list_def send_def index_send_def promise_defs split: prod.splits sum.splits)

theorem known_inbox_skips_discovery_witness:
  "snd (list doc_uri \<lparr>webClient = Some (web doc_plain), inboxUri = Some inbox_uri,
          contentType = None\<rparr> (0, [])) =
     (Suc 0, [Get inbox_uri accept])
   \<and> snd (send doc_uri ''{}'' \<lparr>webClient = Some (web doc_plain), inboxUri = Some inbox_uri,
          contentType = None\<rparr> (0, [])) =
     (Suc 0, [SolidRequest inbox_uri ''POST''
                \<lparr>headers = [(''Content-Type'', DEFAULT_CONTENT_TYPE)]\<rparr> ''{}''])
   \<and> snd (index_send doc_uri ''{}'' \<lparr>webClient = Some (web doc_plain), inboxUri = Some inbox_uri,
          contentType = None\<rparr> (0, [])) =
     (Suc 0, [SolidRequest inbox_uri ''POST''
                \<lparr>headers = [(''Content-Type'', DEFAULT_CONTENT_TYPE)]\<rparr> ''{}''])"
proof -
  have nonempty: "inbox_uri \<noteq> []"
    by (simp add: inbox_uri_def)
  from known_inbox_skips_discovery [where c = "web doc_plain" and u = inbox_uri
      and opts = "\<lparr>webClient = Some (web doc_plain), inboxUri = Some inbox_uri, contentType = None\<rparr>"
      and post = "\<lparr>headers = [(''Content-Type'', DEFAULT_CONTENT_TYPE)]\<rparr>"
      and resourceUri = doc_uri and payload = "''{}''" and s = 0 and tr = "[]"]
  show ?thesis
    by (simp add: nonempty if_truthy_def web_get_inbox web_post_inbox)
qed

text \<open>
  C5 as it is written fails where \<^verbatim>\<open>inboxUri\<close> is set to the empty string: the test
  \<^verbatim>\<open>if (options.inboxUri)\<close> is false, and both operations start with the discovery GET.
\<close>

theorem empty_inboxUri_discovers_counterexample:
  "snd (list doc_uri \<lparr>webClient = Some (web doc_linked), inboxUri = Some '''',
          contentType = None\<rparr> (0, [])) =
     (Suc (Suc 0), [Get doc_uri accept, Get inbox_uri accept])
   \<and> snd (send doc_uri ''{}'' \<lparr>webClient = Some (web doc_linked), inboxUri = Some '''',
          contentType = None\<rparr> (0, [])) =
     (Suc (Suc 0), [Get doc_uri accept,
        SolidRequest inbox_uri ''POST'' \<lparr>headers = [(''Content-Type'', DEFAULT_CONTENT_TYPE)]\<rparr> ''{}''])
   \<and> snd (index_send doc_uri ''{}'' \<lparr>webClient = Some (web doc_linked), inboxUri = Some '''',
          contentType = None\<rparr> (0, [])) =
     (Suc (Suc 0), [Get doc_uri None,
        SolidRequest inbox_uri ''POST'' \<lparr>headers = [(''Content-Type'', DEFAULT_CONTENT_TYPE)]\<rparr> ''{}''])"
  by (simp add: list_def send_def index_send_def promise_defs web_discover_linked
      web_index_discover_linked web_get_inbox web_post_inbox)

subsection \<open>Listing\<close>

text \<open>
  C7. \<^verbatim>\<open>list\<close> with a web client, once the inbox URI \<open>u\<close> is there, from the options (when
  non-empty) or from discovery, the world then being in state \<open>s'\<close> with the calls \<open>tr'\<close>
  made: the next and last call is the GET of \<open>u\<close> with the \<^verbatim>\<open>Accept\<close> header of discovery,
  and when the client answers it with a container the operation resolves to the keys of the
  container's \<^verbatim>\<open>resources\<close>; when the client fails, to that failure.
\<close>

theorem list_gets_inbox:
  assumes "webClient opts = Some c"
    and "inboxUri opts = Some u \<and> u \<noteq> [] \<and> (s', tr') = (s, tr)
       \<or> inboxUri opts \<in> {None, Some []}
         \<and> discoverInboxUri resourceUri c None (s, tr) = (Inr u, (s', tr'))"
  shows "list resourceUri opts (s, tr) =
      (case get c u accept s' of
         (Inl e, s2) \<Rightarrow> (Inl (ClientError e), (s2, tr' @ [Get u accept]))
       | (Inr container, s2) \<Rightarrow>
           (Inr (Object_keys (resources container)), (s2, tr' @ [Get u accept])))
    \<and> accept = Some \<lparr>headers = [(''Accept'', ''application/ld+json;q=0.9,text/turtle;q=0.8'')]\<rparr>
    \<and> filter is_Get (snd (snd (discoverInboxUri resourceUri c None (s, tr)))) =
        filter is_Get tr @ [Get resourceUri accept]
    \<and> set (Object_keys (resources container)) = dom (map_of (resources container))"
proof (intro conjI)
  show "list resourceUri opts (s, tr) =
      (case get c u accept s' of
         (Inl e, s2) \<Rightarrow> (Inl (ClientError e), (s2, tr' @ [Get u accept]))
       | (Inr container, s2) \<Rightarrow>
           (Inr (Object_keys (resources container)), (s2, tr' @ [Get u accept])))"
    using assms
    by (auto simp add: list_def promise_defs split: prod.splits sum.splits)
next
  show "accept = Some \<lparr>headers = [(''Accept'', ''application/ld+json;q=0.9,text/turtle;q=0.8'')]\<rparr>"
    by (simp add: DEFAULT_ACCEPT_def)
next
  show "filter is_Get (snd (snd (discoverInboxUri resourceUri c None (s, tr)))) =
      filter is_Get tr @ [Get resourceUri accept]"
    by (rule discoverInboxUri_single_get)
next
  show "set (Object_keys (resources container)) = dom (map_of (resources container))"
    by (simp add: Object_keys_def dom_map_of_conv_image_fst)
qed

theorem list_gets_inbox_witness:
  "list doc_uri \<lparr>webClient = Some (web doc_linked), inboxUri = None, contentType = None\<rparr> (0, []) =
     (Inr [''https://example.org/inbox/1'', ''https://example.org/inbox/2''],
      (Suc (Suc 0), [Get doc_uri accept, Get inbox_uri accept]))
   \<and> list doc_uri \<lparr>webClient = Some (web doc_plain), inboxUri = Some inbox_uri,
        contentType = None\<rparr> (0, []) =
     (Inr [''https://example.org/inbox/1'', ''https://example.org/inbox/2''],
      (Suc 0, [Get inbox_uri accept]))"
proof -
  have nonempty: "inbox_uri \<noteq> []"
    by (simp add: inbox_uri_def)
  have members: "Object_keys (resources inbox_page) =
      [''https://example.org/inbox/1'', ''https://example.org/inbox/2'']"
    by (simp add: Object_keys_def inbox_page_def example_response_def)
  have discovered: "list doc_uri
      \<lparr>webClient = Some (web doc_linked), inboxUri = None, contentType = None\<rparr> (0, []) =
     (Inr [''https://example.org/inbox/1'', ''https://example.org/inbox/2''],
      (Suc (Suc 0), [Get doc_uri accept, Get inbox_uri accept]))"
    using web_discover_linked [of 0 "[]"] members
      list_gets_inbox [where c = "web doc_linked" and u = inbox_uri and resourceUri = doc_uri
        and opts = "\<lparr>webClient = Some (web doc_linked), inboxUri = None, contentType = None\<rparr>"
        and s = 0 and tr = "[]" and s' = "Suc 0" and tr' = "[Get doc_uri accept]",
        THEN conjunct1]
    by (simp add: web_get_inbox)
  have supplied: "list doc_uri \<lparr>webClient = Some (web doc_plain), inboxUri = Some inbox_uri,
        contentType = None\<rparr> (0, []) =
     (Inr [''https://example.org/inbox/1'', ''https://example.org/inbox/2''],
      (Suc 0, [Get inbox_uri accept]))"
    using nonempty members
      list_gets_inbox [where c = "web doc_plain" and u = inbox_uri and resourceUri = doc_uri
        and opts = "\<lparr>webClient = Some (web doc_plain), inboxUri = Some inbox_uri,
          contentType = None\<rparr>"
        and s = 0 and tr = "[]" and s' = 0 and tr' = "[]", THEN conjunct1]
    by (simp add: web_get_inbox)
  from discovered supplied show ?thesis
    by simp
qed

subsection \<open>Sending\<close>

text \<open>
  C8, as the code has it. \<^verbatim>\<open>send\<close> with a web client, once the inbox URI \<open>u\<close> is there (from
  the options when non-empty, or from discovery), the world then being in state \<open>s'\<close> with
  the calls \<open>tr'\<close> made: the next and last call is the POST of the payload to \<open>u\<close>, and it is
  the only request among the calls of the operation. Its one header is \<^verbatim>\<open>Content-Type\<close>, with
  the \<^verbatim>\<open>contentType\<close> of the options when that is a non-empty string and
  \<^verbatim>\<open>application/ld+json\<close> when it is absent or empty. Both copies.
\<close>

theorem send_posts_payload:
  assumes "webClient opts = Some c"
    and "ctype = (case contentType opts of
                    None \<Rightarrow> ''application/ld+json''
                  | Some t \<Rightarrow> if t = [] then ''application/ld+json'' else t)"
    and "post = \<lparr>headers = [(''Content-Type'', ctype)]\<rparr>"
  shows "(inboxUri opts = Some u \<and> u \<noteq> [] \<and> (s', tr') = (s, tr)
          \<or> inboxUri opts \<in> {None, Some []}
            \<and> discoverInboxUri resourceUri c None (s, tr) = (Inr u, (s', tr')) \<longrightarrow>
        send resourceUri payload opts (s, tr) =
          (case solidRequest c u ''POST'' post payload s' of
             (r, s2) \<Rightarrow> (failed r, (s2, tr' @ [SolidRequest u ''POST'' post payload])))
        \<and> filter is_SolidRequest (snd (snd (send resourceUri payload opts (s, tr)))) =
            filter is_SolidRequest tr @ [SolidRequest u ''POST'' post payload])
    \<and> (inboxUri opts = Some u \<and> u \<noteq> [] \<and> (s', tr') = (s, tr)
          \<or> inboxUri opts \<in> {None, Some []}
            \<and> index_discoverInboxUri resourceUri c None (s, tr) = (Inr u, (s', tr')) \<longrightarrow>
        index_send resourceUri payload opts (s, tr) =
          (case solidRequest c u ''POST'' post payload s' of
             (r, s2) \<Rightarrow> (failed r, (s2, tr' @ [SolidRequest u ''POST'' post payload])))
        \<and> filter is_SolidRequest (snd (snd (index_send resourceUri payload opts (s, tr)))) =
            filter is_SolidRequest tr @ [SolidRequest u ''POST'' post payload])"
proof (intro conjI impI)
  assume resolved: "inboxUri opts = Some u \<and> u \<noteq> [] \<and> (s', tr') = (s, tr)
      \<or> inboxUri opts \<in> {None, Some []}
        \<and> discoverInboxUri resourceUri c None (s, tr) = (Inr u, (s', tr'))"
  then have quiet: "filter is_SolidRequest tr' = filter is_SolidRequest tr"
    using discoverInboxUri_no_request [of resourceUri c None s tr] by auto
  from resolved assms
  show sent: "send resourceUri payload opts (s, tr) =
      (case solidRequest c u ''POST'' post payload s' of
         (r, s2) \<Rightarrow> (failed r, (s2, tr' @ [SolidRequest u ''POST'' post payload])))"
    by (auto simp add: send_def then_promise_def resolve_def if_truthy_def
        webClient_solidRequest_def DEFAULT_CONTENT_TYPE_def split: prod.splits option.splits)
  show "filter is_SolidRequest (snd (snd (send resourceUri payload opts (s, tr)))) =
      filter is_SolidRequest tr @ [SolidRequest u ''POST'' post payload]"
    by (simp add: sent quiet split: prod.splits)
next
  assume resolved: "inboxUri opts = Some u \<and> u \<noteq> [] \<and> (s', tr') = (s, tr)
      \<or> inboxUri opts \<in> {None, Some []}
        \<and> index_discoverInboxUri resourceUri c None (s, tr) = (Inr u, (s', tr'))"
  then have quiet: "filter is_SolidRequest tr' = filter is_SolidRequest tr"
    using index_discoverInboxUri_no_request [of resourceUri c None s tr] by auto
  from resolved assms
  show sent: "index_send resourceUri payload opts (s, tr) =
      (case solidRequest c u ''POST'' post payload s' of
         (r, s2) \<Rightarrow> (failed r, (s2, tr' @ [SolidRequest u ''POST'' post payload])))"
    by (auto simp add: index_send_def then_promise_def resolve_def if_truthy_def
        webClient_solidRequest_def DEFAULT_CONTENT_TYPE_def split: prod.splits option.splits)
  show "filter is_SolidRequest (snd (snd (index_send resourceUri payload opts (s, tr)))) =
      filter is_SolidRequest tr @ [SolidRequest u ''POST'' post payload]"
    by (simp add: sent quiet split: prod.splits)
qed

theorem send_posts_payload_witness:
  "send doc_uri ''{}'' \<lparr>webClient = Some (web doc_plain), inboxUri = Some inbox_uri,
      contentType = None\<rparr> (0, []) =
     (Inr inbox_page,
      (Suc 0, [SolidRequest inbox_uri ''POST''
                 \<lparr>headers = [(''Content-Type'', ''application/ld+json'')]\<rparr> ''{}'']))
   \<and> send doc_uri ''{}'' \<lparr>webClient = Some (web doc_linked), inboxUri = None,
      contentType = Some ''text/turtle''\<rparr> (0, []) =
     (Inr inbox_page,
      (Suc (Suc 0), [Get doc_uri accept,
         SolidRequest inbox_uri ''POST'' \<lparr>headers = [(''Content-Type'', ''text/turtle'')]\<rparr> ''{}'']))
   \<and> index_send doc_uri ''{}'' \<lparr>webClient = Some (web doc_linked), inboxUri = None,
      contentType = Some ''text/turtle''\<rparr> (0, []) =
     (Inr inbox_page,
      (Suc (Suc 0), [Get doc_uri None,
         SolidRequest inbox_uri ''POST'' \<lparr>headers = [(''Content-Type'', ''text/turtle'')]\<rparr> ''{}'']))"
proof -
  have nonempty: "inbox_uri \<noteq> []"
    by (simp add: inbox_uri_def)
  have supplied: "send doc_uri ''{}'' \<lparr>webClient = Some (web doc_plain),
      inboxUri = Some inbox_uri, contentType = None\<rparr> (0, []) =
     (Inr inbox_page,
      (Suc 0, [SolidRequest inbox_uri ''POST''
                 \<lparr>headers = [(''Content-Type'', ''application/ld+json'')]\<rparr> ''{}'']))"
    using nonempty
      send_posts_payload [where c = "web doc_plain" and u = inbox_uri and resourceUri = doc_uri
        and opts = "\<lparr>webClient = Some (web doc_plain), inboxUri = Some inbox_uri,
          contentType = None\<rparr>"
        and ctype = "''application/ld+json''"
        and post = "\<lparr>headers = [(''Content-Type'', ''application/ld+json'')]\<rparr>"
        and payload = "''{}''" and s = 0 and tr = "[]" and s' = 0 and tr' = "[]",
        THEN conjunct1]
    by (simp add: web_post_inbox failed_def)
  have discovered: "send doc_uri ''{}'' \<lparr>webClient = Some (web doc_linked), inboxUri = None,
      contentType = Some ''text/turtle''\<rparr> (0, []) =
     (Inr inbox_page,
      (Suc (Suc 0), [Get doc_uri accept,
         SolidRequest inbox_uri ''POST'' \<lparr>headers = [(''Content-Type'', ''text/turtle'')]\<rparr> ''{}'']))"
    using web_discover_linked [of 0 "[]"]
      send_posts_payload [where c = "web doc_linked" and u = inbox_uri and resourceUri = doc_uri
        and opts = "\<lparr>webClient = Some (web doc_linked), inboxUri = None,
          contentType = Some ''text/turtle''\<rparr>"
        and ctype = "''text/turtle''"
        and post = "\<lparr>headers = [(''Content-Type'', ''text/turtle'')]\<rparr>"
        and payload = "''{}''" and s = 0 and tr = "[]" and s' = "Suc 0"
        and tr' = "[Get doc_uri accept]", THEN conjunct1]
    by (simp add: web_post_inbox failed_def)
  have index_discovered: "index_send doc_uri ''{}'' \<lparr>webClient = Some (web doc_linked),
      inboxUri = None, contentType = Some ''text/turtle''\<rparr> (0, []) =
     (Inr inbox_page,
      (Suc (Suc 0), [Get doc_uri None,
         SolidRequest inbox_uri ''POST'' \<lparr>headers = [(''Content-Type'', ''text/turtle'')]\<rparr> ''{}'']))"
    using web_index_discover_linked [of 0 "[]"]
      send_posts_payload [where c = "web doc_linked" and u = inbox_uri and resourceUri = doc_uri
        and opts = "\<lparr>webClient = Some (web doc_linked), inboxUri = None,
          contentType = Some ''text/turtle''\<rparr>"
        and ctype = "''text/turtle''"
        and post = "\<lparr>headers = [(''Content-Type'', ''text/turtle'')]\<rparr>"
        and payload = "''{}''" and s = 0 and tr = "[]" and s' = "Suc 0"
        and tr' = "[Get doc_uri None]", THEN conjunct2]
    by (simp add: web_post_inbox failed_def)
  from supplied discovered index_discovered show ?thesis
    by simp
qed

text \<open>
  C8 as it is written fails where \<^verbatim>\<open>contentType\<close> is given as the empty string:
  \<^verbatim>\<open>options.contentType || DEFAULT_CONTENT_TYPE\<close> is then the default, and the POST carries
  \<^verbatim>\<open>application/ld+json\<close>, not the empty string that was given.
\<close>

theorem send_empty_contentType_counterexample:
  "snd (send doc_uri ''{}'' \<lparr>webClient = Some (web doc_plain), inboxUri = Some inbox_uri,
          contentType = Some ''''\<rparr> (0, [])) =
     (Suc 0, [SolidRequest inbox_uri ''POST''
                \<lparr>headers = [(''Content-Type'', ''application/ld+json'')]\<rparr> ''{}''])
   \<and> snd (index_send doc_uri ''{}'' \<lparr>webClient = Some (web doc_plain), inboxUri = Some inbox_uri,
          contentType = Some ''''\<rparr> (0, [])) =
     (Suc 0, [SolidRequest inbox_uri ''POST''
                \<lparr>headers = [(''Content-Type'', ''application/ld+json'')]\<rparr> ''{}''])"
proof -
  have nonempty: "inbox_uri \<noteq> []"
    by (simp add: inbox_uri_def)
  show ?thesis
    by (simp add: send_def index_send_def promise_defs web_post_inbox nonempty
        DEFAULT_CONTENT_TYPE_def)
qed

end
